theory Spec2Isabelle
  imports Complex_Main
begin

section \<open>Data model\<close>

text \<open>
  The cart and checkout code of the shop backend: the cart schema with its save hook
  (cart.model.js), the cart controller (cart.controller.js) and the checkout controller
  (checkout.controller.js).

  A JavaScript Number is a double, modelled by its exact value, a rational: the
  arithmetic operators round the exact result to the nearest double (section Numbers).

  An ObjectId is modelled by the string that \<open>toString()\<close> prints for it, 24
  hexadecimal digits in lower case. A request names a product by a string of its own,
  which the driver casts (section Object ids). \<open>mongoose.Types.ObjectId.isValid\<close> is
  a parameter of the controllers.
\<close>

type_synonym number = rat
type_synonym objectId = string

text \<open>The \<open>color\<close> sub-document of a cart line item.\<close>

record color =
  name :: string
  hex :: string

text \<open>One entry of a product's \<open>colors\<close> array, as the controllers read it.\<close>

record colorVariant =
  cv_name :: string
  cv_hex :: string
  cv_quantity :: number
  cv_images :: "string list"

text \<open>
  A product document. The Product schema is not part of the sources at hand; the fields
  are those the controllers read and write. \<open>p_quantity\<close> is the top-level path
  \<open>quantity\<close> that checkout reads and increments: \<open>None\<close> when the document has no
  such field (the product controller creates products with per-colour quantities only).
  An absent \<open>sale\<close> is \<open>0\<close>: both are falsy where the code tests it.
\<close>

record product =
  p_id :: objectId
  p_name :: string
  p_price :: number
  p_sale :: number
  p_colors :: "colorVariant list"
  p_quantity :: "number option"

text \<open>A cart line item; \<open>subtotal\<close> is not required by the schema.\<close>

record lineItem =
  li_id :: objectId
  li_color :: color
  li_quantity :: number
  li_subtotal :: "number option"

text \<open>A cart document without its \<open>userId\<close>, which is the key it is stored under.\<close>

record cart =
  products :: "lineItem list"
  totalPrice :: number

text \<open>The order document that checkout builds, and its items.\<close>

record orderItem =
  oi_id :: objectId
  oi_name :: string
  oi_quantity :: number
  oi_price :: "number option"
  oi_color :: color

record order =
  o_userId :: objectId
  orderItems :: "orderItem list"
  shippingAddress :: string
  paymentMethod :: string
  transactionId :: string
  totalAmount :: number

text \<open>
  The three collections. Carts are keyed by \<open>userId\<close>, the only key the controllers
  look a cart up by (\<open>Cart.findOne({ userId })\<close>); products by \<open>_id\<close>.
\<close>

record db =
  db_products :: "objectId \<rightharpoonup> product"
  db_carts :: "objectId \<rightharpoonup> cart"
  db_orders :: "order list"

text \<open>
  The errors the handlers pass to \<open>next\<close>. \<open>NotEnoughStock\<close> carries what the
  message interpolates: the product name, the available quantity read (possibly
  undefined) and the requested quantity. \<open>ValidationError\<close> and \<open>TypeError\<close> are
  the exceptions that the wrapper of a handler passes on as they are.
\<close>

datatype appError =
    CartNotFound
  | InvalidCartItems
  | InvalidIdOrQuantity
  | ProductNotFound
  | NoAvailableColors
  | ColorNotAvailable string
  | InvalidUserID
  | CartIsEmpty
  | NotEnoughStock string "number option" number
  | FailedToPlaceOrder
  | ValidationError
  | TypeError

text \<open>The HTTP status that an \<open>AppError\<close> is built with; an exception that is not
  one carries none.\<close>

fun statusCode :: "appError \<Rightarrow> nat option" where
  "statusCode CartNotFound = Some 404"
| "statusCode InvalidCartItems = Some 400"
| "statusCode InvalidIdOrQuantity = Some 400"
| "statusCode ProductNotFound = Some 404"
| "statusCode NoAvailableColors = Some 400"
| "statusCode (ColorNotAvailable c) = Some 400"
| "statusCode InvalidUserID = Some 400"
| "statusCode CartIsEmpty = Some 400"
| "statusCode (NotEnoughStock n a r) = Some 400"
| "statusCode FailedToPlaceOrder = Some 500"
| "statusCode ValidationError = None"
| "statusCode TypeError = None"

section \<open>Numbers\<close>

text \<open>
  The double nearest to an exact value, a tie going to the even significand: the
  rounding of every arithmetic operator and of the conversion of a decimal string to a
  Number. \<open>binade a\<close> is the exponent \<open>e\<close> with \<open>2^e \<le> a < 2^(e+1)\<close>; a double has
  53 significant bits, so the value is rounded to a multiple of \<open>2^(e-52)\<close>.
  Overflow, subnormal results, NaN and the infinities are outside the model.
\<close>

fun ilog2 :: "nat \<Rightarrow> nat" where
  "ilog2 n = (if n < 2 then 0 else Suc (ilog2 (n div 2)))"

definition pow2 :: "int \<Rightarrow> rat" where
  "pow2 k = (if 0 \<le> k then 2 ^ nat k else 1 / 2 ^ nat (- k))"

definition binade :: "rat \<Rightarrow> int" where
  "binade a =
     (if 1 \<le> a then int (ilog2 (nat \<lfloor>a\<rfloor>))
      else - int (if \<lceil>1 / a\<rceil> \<le> 1 then 0 else Suc (ilog2 (nat (\<lceil>1 / a\<rceil> - 1)))))"

definition roundHalfEven :: "rat \<Rightarrow> int" where
  "roundHalfEven m =
     (let n = \<lfloor>m\<rfloor>; r = m - of_int n
      in if r < 1 / 2 then n else if 1 / 2 < r then n + 1 else if even n then n else n + 1)"

definition roundToDouble :: "rat \<Rightarrow> rat" where
  "roundToDouble x =
     (if x = 0 then 0
      else (let a = \<bar>x\<bar>; e = binade a; n = roundHalfEven (a * pow2 (52 - e))
            in sgn x * of_int n * pow2 (e - 52)))"

text \<open>The operators \<open>+\<close>, \<open>-\<close>, \<open>*\<close> and \<open>/\<close> on Numbers. Comparisons and
  \<open>Math.min\<close> are exact and are written with the operators of the rationals.\<close>

definition fadd :: "number \<Rightarrow> number \<Rightarrow> number" where
  "fadd a b = roundToDouble (a + b)"

definition fsub :: "number \<Rightarrow> number \<Rightarrow> number" where
  "fsub a b = roundToDouble (a - b)"

definition fmul :: "number \<Rightarrow> number \<Rightarrow> number" where
  "fmul a b = roundToDouble (a * b)"

definition fdiv :: "number \<Rightarrow> number \<Rightarrow> number" where
  "fdiv a b = roundToDouble (a / b)"

text \<open>
  \<open>x.toFixed(2)\<close> prints \<open>n / 100\<close> for the integer \<open>n\<close> nearest to the exact value
  of \<open>x\<close> times 100, the larger one of two, on the magnitude of \<open>x\<close>. Every use in the
  code turns the string back into a Number (\<open>parseFloat\<close>, unary \<open>+\<close>, the cast of a
  schema path): \<open>toFixed2\<close> is that Number.
\<close>

definition decimal2 :: "number \<Rightarrow> rat" where
  "decimal2 x =
     (if x < 0 then - (of_int \<lfloor>(- x) * 100 + 1 / 2\<rfloor> / 100)
      else of_int \<lfloor>x * 100 + 1 / 2\<rfloor> / 100)"

definition toFixed2 :: "number \<Rightarrow> number" where
  "toFixed2 x = roundToDouble (decimal2 x)"

text \<open>The effective price as the specification words it, in the arithmetic of
  Numbers.\<close>

definition effectivePrice_spec :: "number \<Rightarrow> number \<Rightarrow> number" where
  "effectivePrice_spec price sale =
     (if sale > 0 then fmul price (fsub 1 (fdiv sale 100)) else price)"

section \<open>Object ids\<close>

text \<open>
  The driver casts a string of 24 hexadecimal digits to an ObjectId whatever the case of
  its digits, and \<open>toString()\<close> prints an ObjectId in lower case: \<open>castObjectId\<close> is
  the printed form of the ObjectId that a request's string is cast to. The cast happens
  where the string is handed to the driver (\<open>findById\<close>, the \<open>push\<close> into a
  schema array), not where the code compares strings itself.
\<close>

definition lowerHex :: "char \<Rightarrow> char" where
  "lowerHex c =
     (if c = CHR ''A'' then CHR ''a'' else if c = CHR ''B'' then CHR ''b''
      else if c = CHR ''C'' then CHR ''c'' else if c = CHR ''D'' then CHR ''d''
      else if c = CHR ''E'' then CHR ''e'' else if c = CHR ''F'' then CHR ''f''
      else c)"

definition castObjectId :: "string \<Rightarrow> objectId" where
  "castObjectId s = map lowerHex s"

section \<open>The save hook of the cart schema\<close>

text \<open>
  The \<open>reduce\<close> of the hook over the populated line items, left to right, with the
  accumulator. A line item whose product did not populate is skipped: the accumulator
  and the line item stay as they are. Otherwise the unit price is rounded, the line's
  \<open>subtotal\<close> is overwritten with the product, which is not rounded again, and added
  to the accumulator.
\<close>

fun reduce_hook :: "(objectId \<rightharpoonup> product) \<Rightarrow> lineItem list \<Rightarrow> number \<Rightarrow> lineItem list \<times> number" where
  "reduce_hook cat [] acc = ([], acc)"
| "reduce_hook cat (it # its) acc =
     (case cat (li_id it) of
        None \<Rightarrow> (let (its', t) = reduce_hook cat its acc in (it # its', t))
      | Some p \<Rightarrow>
          (let price = toFixed2 (if p_sale p \<noteq> 0
                                 then fmul (p_price p) (fsub 1 (fdiv (p_sale p) 100))
                                 else p_price p);
               sub = fmul (li_quantity it) price;
               (its', t) = reduce_hook cat its (fadd acc sub)
           in (it\<lparr>li_subtotal := Some sub\<rparr> # its', t)))"

definition pre_save :: "(objectId \<rightharpoonup> product) \<Rightarrow> cart \<Rightarrow> cart" where
  "pre_save cat c =
     (let (its, t) = reduce_hook cat (products c) 0
      in c\<lparr>products := its, totalPrice := t\<rparr>)"

section \<open>The cart view\<close>

record productView =
  v_id :: objectId
  v_name :: string
  v_color :: color
  v_quantity :: number
  v_image :: "string option"
  v_price :: number
  v_subtotal :: number

text \<open>\<open>formatProductData(id, quantity, color)\<close>; \<open>id\<close> is the populated product or
  null.\<close>

definition formatProductData :: "product option \<Rightarrow> number \<Rightarrow> color \<Rightarrow> productView option" where
  "formatProductData idp quantity col =
     (case idp of
        None \<Rightarrow> None
      | Some p \<Rightarrow>
          (case find (\<lambda>c. cv_hex c = hex col) (p_colors p) of
             None \<Rightarrow> None
           | Some colorVariant \<Rightarrow>
               (let availableQuantity = cv_quantity colorVariant;
                    finalQuantity = min quantity availableQuantity;
                    effectivePrice = (if p_sale p \<noteq> 0
                                      then fmul (p_price p) (fsub 1 (fdiv (p_sale p) 100))
                                      else p_price p)
                in Some \<lparr>v_id = p_id p,
                         v_name = p_name p,
                         v_color = \<lparr>name = cv_name colorVariant, hex = cv_hex colorVariant\<rparr>,
                         v_quantity = finalQuantity,
                         v_image = (case cv_images colorVariant of
                                      [] \<Rightarrow> None
                                    | u # _ \<Rightarrow> if u = [] then None else Some u),
                         v_price = effectivePrice,
                         v_subtotal = toFixed2 (fmul finalQuantity effectivePrice)\<rparr>)))"

record cartView =
  cv_products :: "productView list"
  cv_totalPrice :: number

text \<open>The \<open>map\<close> and \<open>filter(Boolean)\<close> over the populated line items.\<close>

definition viewProducts :: "(objectId \<rightharpoonup> product) \<Rightarrow> lineItem list \<Rightarrow> productView list" where
  "viewProducts cat its =
     List.map_filter (\<lambda>it. formatProductData (cat (li_id it)) (li_quantity it) (li_color it)) its"

definition getUserCart :: "db \<Rightarrow> objectId \<Rightarrow> appError + cartView" where
  "getUserCart d uid =
     (case db_carts d uid of
        None \<Rightarrow> Inl CartNotFound
      | Some c \<Rightarrow>
          Inr \<lparr>cv_products = viewProducts (db_products d) (products c),
               cv_totalPrice = totalPrice c\<rparr>)"

section \<open>Adding to the cart\<close>

text \<open>One element of the request body of \<open>addToCart\<close>.\<close>

record cartItemReq =
  r_id :: string
  r_quantity :: number
  r_colorHex :: "string option"

text \<open>
  The body of the validation loop for one item: the error it passes to \<open>next\<close>, or
  the colour it stores in \<open>item.color\<close>. The two tests of the first \<open>if\<close> are
  taken in order, as \<open>||\<close> does. \<open>findById\<close> casts the id. An empty \<open>colorHex\<close>
  is falsy, as is an empty \<open>hex\<close> of the first variant.
\<close>

definition validateItem :: "(string \<Rightarrow> bool) \<Rightarrow> (objectId \<rightharpoonup> product) \<Rightarrow> cartItemReq \<Rightarrow> appError + color" where
  "validateItem isValid cat item =
     (if \<not> isValid (r_id item) then Inl InvalidIdOrQuantity
      else if r_quantity item < 1 then Inl InvalidIdOrQuantity
      else case cat (castObjectId (r_id item)) of
        None \<Rightarrow> Inl ProductNotFound
      | Some product \<Rightarrow>
          (let firstHex = (case p_colors product of
                             [] \<Rightarrow> None
                           | c # _ \<Rightarrow> if cv_hex c = [] then None else Some (cv_hex c));
               chosenColor = (case r_colorHex item of
                                None \<Rightarrow> firstHex
                              | Some h \<Rightarrow> if h = [] then firstHex else Some h)
           in case chosenColor of
                None \<Rightarrow> Inl NoAvailableColors
              | Some ch \<Rightarrow>
                  (case find (\<lambda>c. cv_hex c = ch) (p_colors product) of
                     None \<Rightarrow> Inl (ColorNotAvailable ch)
                   | Some colorVariant \<Rightarrow>
                       Inr \<lparr>name = cv_name colorVariant, hex = cv_hex colorVariant\<rparr>)))"

text \<open>The validation loop: the first error ends the request.\<close>

fun validateItems :: "(string \<Rightarrow> bool) \<Rightarrow> (objectId \<rightharpoonup> product) \<Rightarrow> cartItemReq list \<Rightarrow> appError + (cartItemReq \<times> color) list" where
  "validateItems isValid cat [] = Inr []"
| "validateItems isValid cat (item # items) =
     (case validateItem isValid cat item of
        Inl e \<Rightarrow> Inl e
      | Inr col \<Rightarrow>
          (case validateItems isValid cat items of
             Inl e \<Rightarrow> Inl e
           | Inr rest \<Rightarrow> Inr ((item, col) # rest)))"

text \<open>Assignment to the first element that satisfies \<open>P\<close>: what mutating the result
  of \<open>Array.prototype.find\<close> does to the array.\<close>

fun updateFirst :: "('a \<Rightarrow> bool) \<Rightarrow> ('a \<Rightarrow> 'a) \<Rightarrow> 'a list \<Rightarrow> 'a list" where
  "updateFirst P f [] = []"
| "updateFirst P f (x # xs) = (if P x then f x # xs else x # updateFirst P f xs)"

text \<open>
  The body of the second loop for one validated item, on the cart's line items. The
  product is read again; were it gone, reading \<open>product.colors\<close> would throw. The
  variant whose stock is read is looked up by colour name. The existing line item is
  looked for with \<open>p.id.toString() === id\<close>, the stored id against the string of the
  request as it came; the line item that is pushed has its id cast by the schema.
\<close>

definition addItem :: "(objectId \<rightharpoonup> product) \<Rightarrow> lineItem list \<Rightarrow> cartItemReq \<times> color \<Rightarrow> appError + lineItem list" where
  "addItem cat prods ic =
     (case cat (castObjectId (r_id (fst ic))) of
        None \<Rightarrow> Inl TypeError
      | Some product \<Rightarrow>
          (let colorVariant = find (\<lambda>c. cv_name c = name (snd ic)) (p_colors product);
               availableQuantity = (case colorVariant of None \<Rightarrow> 0 | Some cv \<Rightarrow> cv_quantity cv);
               finalQuantity = min (r_quantity (fst ic)) availableQuantity
           in if finalQuantity = 0 then Inr prods
              else (case find (\<lambda>p. li_id p = r_id (fst ic) \<and> hex (li_color p) = hex (snd ic)) prods of
                      Some existing \<Rightarrow>
                        Inr (updateFirst
                               (\<lambda>p. li_id p = r_id (fst ic) \<and> hex (li_color p) = hex (snd ic))
                               (\<lambda>e. e\<lparr>li_quantity :=
                                        min (fadd (li_quantity e) finalQuantity) availableQuantity\<rparr>)
                               prods)
                    | None \<Rightarrow>
                        Inr (prods @ [\<lparr>li_id = castObjectId (r_id (fst ic)), li_color = snd ic,
                                       li_quantity = finalQuantity, li_subtotal = None\<rparr>]))))"

fun addItems :: "(objectId \<rightharpoonup> product) \<Rightarrow> lineItem list \<Rightarrow> (cartItemReq \<times> color) list \<Rightarrow> appError + lineItem list" where
  "addItems cat prods [] = Inr prods"
| "addItems cat prods (ic # ics) =
     (case addItem cat prods ic of
        Inl e \<Rightarrow> Inl e
      | Inr prods' \<Rightarrow> addItems cat prods' ics)"

text \<open>
  \<open>cart.save()\<close>: the schema's validators (\<open>min: 1\<close> on the quantity, \<open>required\<close>
  on the colour's name and hex, which an empty string fails), then the save hook, then
  the write. A stored cart passed them when it was written, so checking every line item
  is checking the modified ones.
\<close>

definition validateCart :: "cart \<Rightarrow> bool" where
  "validateCart c =
     list_all (\<lambda>p. 1 \<le> li_quantity p \<and> name (li_color p) \<noteq> [] \<and> hex (li_color p) \<noteq> [])
       (products c)"

definition save :: "db \<Rightarrow> objectId \<Rightarrow> cart \<Rightarrow> appError + cart \<times> db" where
  "save d uid c =
     (if \<not> validateCart c then Inl ValidationError
      else (let c' = pre_save (db_products d) c
            in Inr (c', d\<lparr>db_carts := (db_carts d)(uid \<mapsto> c')\<rparr>)))"

text \<open>
  \<open>addToCart\<close>, returning the response or the error together with the database after
  the request.
\<close>

definition addToCart :: "(string \<Rightarrow> bool) \<Rightarrow> db \<Rightarrow> objectId \<Rightarrow> cartItemReq list \<Rightarrow> (appError + cartView) \<times> db" where
  "addToCart isValid d uid items =
     (if items = [] then (Inl InvalidCartItems, d)
      else case validateItems isValid (db_products d) items of
        Inl e \<Rightarrow> (Inl e, d)
      | Inr vitems \<Rightarrow>
          (let cart = (case db_carts d uid of
                         None \<Rightarrow> \<lparr>products = [], totalPrice = 0\<rparr>
                       | Some c \<Rightarrow> c)
           in case addItems (db_products d) (products cart) vitems of
                Inl e \<Rightarrow> (Inl e, d)
              | Inr prods \<Rightarrow>
                  (case save d uid (cart\<lparr>products := prods\<rparr>) of
                     Inl e \<Rightarrow> (Inl e, d)
                   | Inr (saved, d') \<Rightarrow>
                       (case db_carts d' uid of
                          None \<Rightarrow> (Inl TypeError, d')
                        | Some updatedCart \<Rightarrow>
                            (Inr \<lparr>cv_products = viewProducts (db_products d') (products updatedCart),
                                  cv_totalPrice = totalPrice saved\<rparr>, d')))))"

section \<open>Checkout\<close>

text \<open>
  \<open>populate('products.id')\<close> on the cart's line items: each with its product, or
  with null when the product is gone.
\<close>

definition populate :: "(objectId \<rightharpoonup> product) \<Rightarrow> lineItem list \<Rightarrow> (lineItem \<times> product option) list" where
  "populate cat its = map (\<lambda>it. (it, cat (li_id it))) its"

text \<open>The \<open>map\<close> that builds \<open>orderItems\<close>; reading \<open>item.id._id\<close> of a null
  product throws.\<close>

fun buildOrderItems :: "(lineItem \<times> product option) list \<Rightarrow> (orderItem list) option" where
  "buildOrderItems [] = Some []"
| "buildOrderItems ((item, None) # rest) = None"
| "buildOrderItems ((item, Some p) # rest) =
     (case buildOrderItems rest of
        None \<Rightarrow> None
      | Some ois \<Rightarrow>
          Some (\<lparr>oi_id = p_id p, oi_name = p_name p, oi_quantity = li_quantity item,
                 oi_price = li_subtotal item, oi_color = li_color item\<rparr> # ois))"

text \<open>
  The stock loop: the first line item with \<open>item.quantity > item.id.quantity\<close>, the
  top-level path of the populated product. A comparison with undefined is false. A
  null product would throw here as well, into the same \<open>catch\<close>; the map above has
  thrown before.
\<close>

fun stockCheck :: "(lineItem \<times> product option) list \<Rightarrow> appError option" where
  "stockCheck [] = None"
| "stockCheck ((item, None) # rest) = Some FailedToPlaceOrder"
| "stockCheck ((item, Some p) # rest) =
     (case p_quantity p of
        None \<Rightarrow> stockCheck rest
      | Some avail \<Rightarrow>
          if li_quantity item > avail
          then Some (NotEnoughStock (p_name p) (p_quantity p) (li_quantity item))
          else stockCheck rest)"

text \<open>
  \<open>Product.updateOne({_id}, {$inc: {quantity: -item.quantity}})\<close>: the increment of
  the top-level path, which creates the field from 0 when the document lacks it. The
  \<open>colors\<close> array is not written. The updates of one call commute, so they are
  applied in the order of the line items.
\<close>

definition incQuantity :: "(objectId \<rightharpoonup> product) \<Rightarrow> lineItem \<times> product option \<Rightarrow> (objectId \<rightharpoonup> product)" where
  "incQuantity cat ip =
     (case snd ip of
        None \<Rightarrow> cat
      | Some p \<Rightarrow>
          (case cat (p_id p) of
             None \<Rightarrow> cat
           | Some stored \<Rightarrow>
               cat(p_id p \<mapsto>
                 stored\<lparr>p_quantity :=
                   Some (fadd (case p_quantity stored of None \<Rightarrow> 0 | Some n \<Rightarrow> n)
                              (- li_quantity (fst ip)))\<rparr>)))"

text \<open>
  \<open>placeOrder\<close>. The cart is removed by \<open>Cart.findOneAndDelete(userId)\<close>, called
  with the bare id, not with the filter \<open>{ userId }\<close> that the read at the top uses;
  which cart the driver removes for a bare id is the parameter \<open>findOneAndDelete\<close>.
  \<open>totalAmount\<close> is the string of \<open>toFixed(2)\<close>, read back as a Number.
  \<open>order.save()\<close> and the updates are taken to succeed; an exception before them is
  caught and answered with status 500.
\<close>

definition placeOrder ::
  "(string \<Rightarrow> bool) \<Rightarrow> (objectId \<Rightarrow> (objectId \<rightharpoonup> cart) \<Rightarrow> (objectId \<rightharpoonup> cart)) \<Rightarrow>
   db \<Rightarrow> objectId \<Rightarrow> string \<Rightarrow> string \<Rightarrow> string \<Rightarrow> (appError + order) \<times> db" where
  "placeOrder isValid findOneAndDelete d uid sa pm tx =
     (if \<not> isValid uid then (Inl InvalidUserID, d)
      else case db_carts d uid of
        None \<Rightarrow> (Inl CartIsEmpty, d)
      | Some cart \<Rightarrow>
          if products cart = [] then (Inl CartIsEmpty, d)
          else (let items = populate (db_products d) (products cart)
                in case buildOrderItems items of
                     None \<Rightarrow> (Inl FailedToPlaceOrder, d)
                   | Some ois \<Rightarrow>
                       (case stockCheck items of
                          Some e \<Rightarrow> (Inl e, d)
                        | None \<Rightarrow>
                            (let order = \<lparr>o_userId = uid, orderItems = ois,
                                          shippingAddress = sa, paymentMethod = pm,
                                          transactionId = tx,
                                          totalAmount = toFixed2 (totalPrice cart)\<rparr>;
                                 d1 = d\<lparr>db_orders := db_orders d @ [order]\<rparr>;
                                 d2 = d1\<lparr>db_products := foldl incQuantity (db_products d1) items\<rparr>;
                                 d3 = d2\<lparr>db_carts := findOneAndDelete uid (db_carts d2)\<rparr>
                             in (Inr order, d3)))))"

section \<open>What the properties are stated with\<close>

text \<open>The effective price, by the expression that the hook and the view both
  inline.\<close>

definition effectivePrice :: "product \<Rightarrow> number" where
  "effectivePrice p =
     (if p_sale p \<noteq> 0 then fmul (p_price p) (fsub 1 (fdiv (p_sale p) 100)) else p_price p)"

text \<open>What the hook does to one line item, and the subtotal it adds to the total.\<close>

definition hook_item :: "(objectId \<rightharpoonup> product) \<Rightarrow> lineItem \<Rightarrow> lineItem" where
  "hook_item cat it =
     (case cat (li_id it) of
        None \<Rightarrow> it
      | Some p \<Rightarrow> it\<lparr>li_subtotal := Some (fmul (li_quantity it) (toFixed2 (effectivePrice p)))\<rparr>)"

definition resolvedSubtotal :: "(objectId \<rightharpoonup> product) \<Rightarrow> lineItem \<Rightarrow> number option" where
  "resolvedSubtotal cat it =
     (case cat (li_id it) of
        None \<Rightarrow> None
      | Some p \<Rightarrow> Some (fmul (li_quantity it) (toFixed2 (effectivePrice p))))"

text \<open>The sum of Numbers that a \<open>reduce\<close> from 0 accumulates, left to right.\<close>

definition sumNumbers :: "number list \<Rightarrow> number" where
  "sumNumbers xs = foldl fadd 0 xs"

text \<open>
  The subtotal of a line item against the live catalogue, as the specification words it
  for the cart view: the requested quantity capped at the variant's stock, times the
  effective price, rounded for display. A line whose product or variant is gone has
  none.
\<close>

definition liveSubtotal :: "(objectId \<rightharpoonup> product) \<Rightarrow> lineItem \<Rightarrow> number option" where
  "liveSubtotal cat it =
     (case cat (li_id it) of
        None \<Rightarrow> None
      | Some p \<Rightarrow>
          (case find (\<lambda>c. cv_hex c = hex (li_color it)) (p_colors p) of
             None \<Rightarrow> None
           | Some cv \<Rightarrow>
               Some (toFixed2 (fmul (min (li_quantity it) (cv_quantity cv)) (effectivePrice p)))))"

text \<open>The key under which the cart merges line items: product and colour hex.\<close>

definition lineKey :: "lineItem \<Rightarrow> objectId \<times> string" where
  "lineKey p = (li_id p, hex (li_color p))"

definition cartKeysDistinct :: "db \<Rightarrow> objectId \<Rightarrow> bool" where
  "cartKeysDistinct d uid =
     (case db_carts d uid of
        None \<Rightarrow> True
      | Some c \<Rightarrow> distinct (map lineKey (products c)))"



section \<open>Example data\<close>

text \<open>Strings of 24 hexadecimal digits of either case, which \<open>ObjectId.isValid\<close>
  accepts.\<close>

definition hex24 :: "string \<Rightarrow> bool" where
  "hex24 s = (length s = 24 \<and> list_all (\<lambda>c. c \<in> set ''0123456789abcdefABCDEF'') s)"

definition chairId :: objectId where "chairId = ''65a000000000000000000001''"
definition sofaId :: objectId where "sofaId = ''65a000000000000000000002''"
definition lampId :: objectId where "lampId = ''65a000000000000000000003''"
definition matId :: objectId where "matId = ''65a000000000000000000004''"
definition aliceId :: objectId where "aliceId = ''65b000000000000000000001''"

definition red :: color where "red = \<lparr>name = ''Red'', hex = ''#ff0000''\<rparr>"
definition darkRed :: color where "darkRed = \<lparr>name = ''Red'', hex = ''#aa0000''\<rparr>"
definition white :: color where "white = \<lparr>name = ''White'', hex = ''#ffffff''\<rparr>"
definition green :: color where "green = \<lparr>name = ''Green'', hex = ''#00ff00''\<rparr>"

text \<open>The product of the specification's scenario: one colour with 3 in stock, price
  100, 10 per cent off; \<open>tq\<close> is its top-level \<open>quantity\<close>.\<close>

definition chair :: "number option \<Rightarrow> product" where
  "chair tq = \<lparr>p_id = chairId, p_name = ''Chair'', p_price = 100, p_sale = 10,
       p_colors = [\<lparr>cv_name = ''Red'', cv_hex = ''#ff0000'', cv_quantity = 3, cv_images = []\<rparr>],
       p_quantity = tq\<rparr>"

text \<open>A product with two variants of one colour name.\<close>

definition sofa :: product where
  "sofa = \<lparr>p_id = sofaId, p_name = ''Sofa'', p_price = 200, p_sale = 0,
       p_colors = [\<lparr>cv_name = ''Red'', cv_hex = ''#ff0000'', cv_quantity = 10, cv_images = []\<rparr>,
                   \<lparr>cv_name = ''Red'', cv_hex = ''#aa0000'', cv_quantity = 2, cv_images = []\<rparr>],
       p_quantity = None\<rparr>"

text \<open>A product whose price is the double nearest to 9.99; its effective price, about
  8.4915, has more than two decimals.\<close>

definition lamp :: product where
  "lamp = \<lparr>p_id = lampId, p_name = ''Lamp'', p_price = roundToDouble (999 / 100), p_sale = 15,
       p_colors = [\<lparr>cv_name = ''White'', cv_hex = ''#ffffff'', cv_quantity = 100, cv_images = []\<rparr>],
       p_quantity = None\<rparr>"

text \<open>A product whose price is the double nearest to 0.1.\<close>

definition mat :: product where
  "mat = \<lparr>p_id = matId, p_name = ''Mat'', p_price = roundToDouble (1 / 10), p_sale = 0,
       p_colors = [\<lparr>cv_name = ''Green'', cv_hex = ''#00ff00'', cv_quantity = 10, cv_images = []\<rparr>],
       p_quantity = None\<rparr>"

definition chairLine :: "number \<Rightarrow> lineItem" where
  "chairLine q = \<lparr>li_id = chairId, li_color = red, li_quantity = q, li_subtotal = Some (fmul q 90)\<rparr>"

definition sofaLine :: "number \<Rightarrow> lineItem" where
  "sofaLine q = \<lparr>li_id = sofaId, li_color = darkRed, li_quantity = q, li_subtotal = Some (fmul q 200)\<rparr>"

definition lampLine :: "number \<Rightarrow> lineItem" where
  "lampLine q = \<lparr>li_id = lampId, li_color = white, li_quantity = q, li_subtotal = None\<rparr>"

definition matLine :: "number \<Rightarrow> lineItem" where
  "matLine q = \<lparr>li_id = matId, li_color = green, li_quantity = q, li_subtotal = None\<rparr>"

definition catalogue :: "number option \<Rightarrow> objectId \<rightharpoonup> product" where
  "catalogue tq = [chairId \<mapsto> chair tq, sofaId \<mapsto> sofa, lampId \<mapsto> lamp, matId \<mapsto> mat]"

text \<open>A shop in which the cart of one user holds the given line items, with the total
  that the hook stored for them.\<close>

definition shop :: "number option \<Rightarrow> lineItem list \<Rightarrow> number \<Rightarrow> db" where
  "shop tq ls tot =
     \<lparr>db_products = catalogue tq,
      db_carts = [aliceId \<mapsto> \<lparr>products = ls, totalPrice = tot\<rparr>],
      db_orders = []\<rparr>"

definition emptyShop :: db where
  "emptyShop = \<lparr>db_products = catalogue None, db_carts = Map.empty, db_orders = []\<rparr>"


text \<open>A request that names the chair with a digit in upper case.\<close>

definition upperChairReq :: "number \<Rightarrow> cartItemReq" where
  "upperChairReq q = \<lparr>r_id = ''65A000000000000000000001'', r_quantity = q, r_colorHex = None\<rparr>"

definition sofaReq :: cartItemReq where
  "sofaReq = \<lparr>r_id = sofaId, r_quantity = 5, r_colorHex = Some ''#aa0000''\<rparr>"

text \<open>A line item whose product is no longer in the catalogue.\<close>

definition ghostId :: objectId where "ghostId = ''65a0000000000000000000ff''"

definition ghostLine :: lineItem where
  "ghostLine = \<lparr>li_id = ghostId, li_color = red, li_quantity = 1, li_subtotal = Some 40\<rparr>"

section \<open>The effective price\<close>

text \<open>On a sale percentage that is not negative, testing it for truthiness is testing
  \<open>sale > 0\<close>.\<close>

lemma effectivePrice_spec_eq:
  "0 \<le> p_sale p \<Longrightarrow> effectivePrice p = effectivePrice_spec (p_price p) (p_sale p)"
  by (auto simp: effectivePrice_def effectivePrice_spec_def)

section \<open>The hook and the view, line by line\<close>

lemma reduce_hook_fst: "fst (reduce_hook cat its acc) = map (hook_item cat) its"
  by (induction its arbitrary: acc)
     (simp_all add: hook_item_def effectivePrice_def Let_def split_beta split: option.splits)

lemma reduce_hook_snd:
  "snd (reduce_hook cat its acc) = foldl fadd acc (List.map_filter (resolvedSubtotal cat) its)"
  by (induction its arbitrary: acc)
     (simp_all add: resolvedSubtotal_def effectivePrice_def Let_def split_beta
                    split: option.splits)

lemma formatProductData_subtotal:
  "map_option v_subtotal (formatProductData (cat (li_id it)) (li_quantity it) (li_color it))
     = liveSubtotal cat it"
  by (auto simp: formatProductData_def liveSubtotal_def effectivePrice_def Let_def
           split: option.splits)

lemma viewProducts_subtotals:
  "map v_subtotal (viewProducts cat its) = List.map_filter (liveSubtotal cat) its"
proof (induction its)
  case Nil
  show ?case by (simp add: viewProducts_def)
next
  case (Cons it its)
  have "liveSubtotal cat it
          = map_option v_subtotal (formatProductData (cat (li_id it)) (li_quantity it) (li_color it))"
    by (simp add: formatProductData_subtotal)
  then show ?case using Cons
    by (cases "formatProductData (cat (li_id it)) (li_quantity it) (li_color it)")
       (auto simp: viewProducts_def)
qed

section \<open>The example data, evaluated\<close>

text \<open>The doubles that the examples compute. 100 * (1 - 10 / 100) is 90 although
  neither 10 / 100 nor its difference from 1 is exact.\<close>

lemma chair_effective: "fmul 100 (fsub 1 (fdiv 10 100)) = 90"
  by code_simp

lemma lamp_effective:
  "fmul (roundToDouble (999 / 100)) (fsub 1 (fdiv 15 100)) = 4780289529477071 / 562949953421312"
  by code_simp

lemma lamp_hook_value:
  "fmul 100 (toFixed2 (4780289529477071 / 562949953421312)) = 849"
  by code_simp

lemma lamp_view_value:
  "toFixed2 (fmul 100 (4780289529477071 / 562949953421312)) = roundToDouble (16983 / 20)"
  by code_simp

lemma lamp_values_differ: "roundToDouble (16983 / 20) \<noteq> 849"
  by code_simp

lemma mat_hook_value:
  "fmul 3 (toFixed2 (roundToDouble (1 / 10))) = 1351079888211149 / 4503599627370496"
  by code_simp

lemma mat_view_value:
  "toFixed2 (fmul 3 (roundToDouble (1 / 10))) = roundToDouble (3 / 10)"
  by code_simp

lemma mat_values_differ: "roundToDouble (3 / 10) \<noteq> 1351079888211149 / 4503599627370496"
  by code_simp

lemma toFixed2_values:
  "toFixed2 90 = 90" "toFixed2 180 = 180" "toFixed2 200 = 200" "toFixed2 270 = 270"
  "toFixed2 400 = 400" "toFixed2 450 = 450" "toFixed2 1000 = 1000"
  by code_simp+

lemma fmul_values:
  "fmul 1 90 = 90" "fmul 2 90 = 180" "fmul 3 90 = 270" "fmul 5 90 = 450"
  "fmul 1 200 = 200" "fmul 2 200 = 400" "fmul 5 200 = 1000" "fmul 6 200 = 1200"
  by code_simp+

lemma fadd_values:
  "fadd 0 90 = 90" "fadd 0 180 = 180" "fadd 0 270 = 270" "fadd 0 450 = 450"
  "fadd 0 1000 = 1000" "fadd 90 90 = 180"
  "fadd 0 (- 3) = - 3" "fadd 0 (- 5) = - 5"
  by code_simp+

lemma hex24_ids: "hex24 chairId" "hex24 sofaId" "hex24 lampId" "hex24 matId" "hex24 aliceId"
  by (simp_all add: hex24_def chairId_def sofaId_def lampId_def matId_def aliceId_def)

lemma cast_ids:
  "castObjectId chairId = chairId" "castObjectId sofaId = sofaId"
  "castObjectId ''65A000000000000000000001'' = chairId"
  by (simp_all add: castObjectId_def lowerHex_def chairId_def sofaId_def)

lemma upper_id_differs:
  "chairId \<noteq> ''65A000000000000000000001''" "''65A000000000000000000001'' \<noteq> chairId"
  by (simp_all add: chairId_def)

lemma catalogue_lookups:
  "catalogue tq chairId = Some (chair tq)"
  "catalogue tq sofaId = Some sofa"
  "catalogue tq lampId = Some lamp"
  "catalogue tq matId = Some mat"
  "catalogue tq ghostId = None"
  by (simp_all add: catalogue_def chairId_def sofaId_def lampId_def matId_def ghostId_def)

lemma line_ids:
  "li_id (chairLine q) = chairId" "li_id (sofaLine q) = sofaId"
  "li_id (lampLine q) = lampId" "li_id (matLine q) = matId" "li_id ghostLine = ghostId"
  by (simp_all add: chairLine_def sofaLine_def lampLine_def matLine_def ghostLine_def)

lemma shop_fields:
  "db_products (shop tq ls tot) = catalogue tq"
  "db_carts (shop tq ls tot) aliceId = Some \<lparr>products = ls, totalPrice = tot\<rparr>"
  "db_orders (shop tq ls tot) = []"
  by (simp_all add: shop_def)

lemma chair_price: "effectivePrice (chair tq) = 90"
  by (simp add: effectivePrice_def chair_def chair_effective)

lemma chair_view:
  "formatProductData (Some (chair tq)) q red
     = Some \<lparr>v_id = chairId, v_name = ''Chair'', v_color = red, v_quantity = min q 3,
             v_image = None, v_price = 90, v_subtotal = toFixed2 (fmul (min q 3) 90)\<rparr>"
  by (simp add: formatProductData_def chair_def red_def Let_def chair_effective)

lemma chair_hook:
  "reduce_hook (catalogue tq) [chairLine q] acc = ([chairLine q], fadd acc (fmul q 90))"
  by (simp add: catalogue_lookups line_ids)
     (simp add: chairLine_def chair_def Let_def chair_effective toFixed2_values)

lemma lamp_hook:
  "reduce_hook (catalogue tq) [lampLine 100] 0
     = ([(lampLine 100)\<lparr>li_subtotal := Some 849\<rparr>], fadd 0 849)"
  by (simp add: catalogue_lookups line_ids)
     (simp add: lampLine_def lamp_def Let_def lamp_effective lamp_hook_value)

lemma lamp_view:
  "map v_subtotal (viewProducts (catalogue tq) [lampLine 100]) = [roundToDouble (16983 / 20)]"
  by (simp add: viewProducts_def catalogue_lookups line_ids)
     (simp add: formatProductData_def lampLine_def lamp_def white_def Let_def
                lamp_effective lamp_view_value)

lemma mat_hook:
  "map li_subtotal (fst (reduce_hook (catalogue tq) [matLine 3] 0))
     = [Some (1351079888211149 / 4503599627370496)]"
  by (simp add: catalogue_lookups line_ids)
     (simp add: matLine_def mat_def Let_def mat_hook_value)

lemma mat_view:
  "map v_subtotal (viewProducts (catalogue tq) [matLine 3]) = [roundToDouble (3 / 10)]"
  by (simp add: viewProducts_def catalogue_lookups line_ids)
     (simp add: formatProductData_def matLine_def mat_def green_def Let_def mat_view_value)

lemma sofa_validate:
  "validateItems hex24 (catalogue tq) [sofaReq] = Inr [(sofaReq, darkRed)]"
  by (simp add: validateItem_def sofaReq_def hex24_ids cast_ids catalogue_lookups Let_def
                sofa_def darkRed_def)

lemma sofa_add:
  "addItems (catalogue tq) [] [(sofaReq, darkRed)]
     = Inr [\<lparr>li_id = sofaId, li_color = darkRed, li_quantity = 5, li_subtotal = None\<rparr>]"
  by (simp add: addItem_def sofaReq_def cast_ids catalogue_lookups Let_def
                sofa_def darkRed_def)

lemma sofa_hook:
  "reduce_hook (catalogue tq)
     [\<lparr>li_id = sofaId, li_color = darkRed, li_quantity = 5, li_subtotal = None\<rparr>] 0
     = ([sofaLine 5], 1000)"
  by (simp add: catalogue_lookups Let_def)
     (simp add: sofa_def sofaLine_def toFixed2_values fmul_values fadd_values)

lemma sofa_view:
  "viewProducts (catalogue tq) [sofaLine 5]
     = [\<lparr>v_id = sofaId, v_name = ''Sofa'', v_color = darkRed, v_quantity = 2,
          v_image = None, v_price = 200, v_subtotal = 400\<rparr>]"
  by (simp add: viewProducts_def line_ids catalogue_lookups)
     (simp add: formatProductData_def sofa_def sofaLine_def darkRed_def Let_def
                toFixed2_values fmul_values)

lemma upper_chair_validate:
  "validateItems hex24 (catalogue tq) [upperChairReq 1] = Inr [(upperChairReq 1, red)]"
proof -
  have v: "hex24 ''65A000000000000000000001''" by (simp add: hex24_def)
  show ?thesis
    by (simp add: validateItem_def upperChairReq_def v cast_ids catalogue_lookups Let_def
                  chair_def red_def)
qed

lemma upper_chair_add:
  "addItems (catalogue tq) [chairLine 1] [(upperChairReq 1, red)]
     = Inr [chairLine 1,
            \<lparr>li_id = chairId, li_color = red, li_quantity = 1, li_subtotal = None\<rparr>]"
  by (simp add: addItem_def upperChairReq_def cast_ids catalogue_lookups Let_def
                chair_def chairLine_def red_def upper_id_differs)

lemma two_chairs_hook:
  "reduce_hook (catalogue tq)
     [chairLine 1, \<lparr>li_id = chairId, li_color = red, li_quantity = 1, li_subtotal = None\<rparr>] 0
     = ([chairLine 1, chairLine 1], 180)"
  by (simp add: catalogue_lookups line_ids Let_def)
     (simp add: chair_def chairLine_def chair_effective toFixed2_values fmul_values fadd_values)

section \<open>The cart view and the stored total\<close>

text \<open>
  C1 (as the specification states it): for every user with a stored cart, getCart
  returns a totalPrice equal to the sum of the per-item subtotals it returns, each
  recomputed against the live catalogue. It fails on a cart whose line asks for 5 of a
  variant that has 3 in stock: the view returns the subtotal of 3 units, 270, next to
  the stored total of 5 units, 450.
\<close>

theorem getUserCart_total_counterexample:
  "getUserCart (shop None [chairLine 5] 450) aliceId
     = Inr \<lparr>cv_products = [\<lparr>v_id = chairId, v_name = ''Chair'', v_color = red, v_quantity = 3,
                               v_image = None, v_price = 90, v_subtotal = 270\<rparr>],
            cv_totalPrice = 450\<rparr>
   \<and> cv_totalPrice \<lparr>cv_products = [\<lparr>v_id = chairId, v_name = ''Chair'', v_color = red,
                                      v_quantity = 3, v_image = None, v_price = 90,
                                      v_subtotal = 270\<rparr>],
                      cv_totalPrice = 450\<rparr>
       \<noteq> sum_list (map v_subtotal [\<lparr>v_id = chairId, v_name = ''Chair'', v_color = red,
                                      v_quantity = 3, v_image = None, v_price = 90,
                                      v_subtotal = 270\<rparr>])"
  by (simp add: getUserCart_def shop_fields viewProducts_def catalogue_lookups line_ids)
     (simp add: chairLine_def chair_view fmul_values toFixed2_values)

text \<open>
  C1 (amended): for every user with a stored cart, getCart returns as totalPrice the
  total stored with the cart, as it is, whatever the live catalogue holds: the total is
  not recomputed at the read. Next to it, it returns per-item subtotals that are
  recomputed against the live catalogue, min(requested quantity, current stock) times
  the current effective price, rounded to two decimals, for the line items whose
  product and colour variant still resolve.
\<close>

theorem getUserCart_returns_stored_total:
  assumes "db_carts d uid = Some c"
  shows "\<exists>v. getUserCart d uid = Inr v
           \<and> cv_totalPrice v = totalPrice c
           \<and> map v_subtotal (cv_products v)
               = List.map_filter (liveSubtotal (db_products d)) (products c)
           \<and> (\<forall>cat. map_sum id cv_totalPrice (getUserCart (d\<lparr>db_products := cat\<rparr>) uid)
                      = Inr (totalPrice c))"
  using assms by (simp add: getUserCart_def viewProducts_subtotals)

theorem getUserCart_returns_stored_total_witness:
  "db_carts (shop None [chairLine 3] 270) aliceId = Some \<lparr>products = [chairLine 3], totalPrice = 270\<rparr>
   \<and> (\<exists>v. getUserCart (shop None [chairLine 3] 270) aliceId = Inr v
          \<and> cv_totalPrice v = 270
          \<and> map v_subtotal (cv_products v) = [270])"
proof -
  have h1: "db_carts (shop None [chairLine 3] 270) aliceId
              = Some \<lparr>products = [chairLine 3], totalPrice = 270\<rparr>"
    by (simp add: shop_fields)
  have l: "List.map_filter (liveSubtotal (db_products (shop None [chairLine 3] 270)))
             (products \<lparr>products = [chairLine 3], totalPrice = 270\<rparr>) = [270]"
    by (simp add: shop_fields liveSubtotal_def catalogue_lookups line_ids chair_price)
       (simp add: chairLine_def chair_def red_def effectivePrice_def chair_effective
                  fmul_values toFixed2_values)
  from getUserCart_returns_stored_total [OF h1]
  obtain v where "getUserCart (shop None [chairLine 3] 270) aliceId = Inr v"
    and "cv_totalPrice v = 270"
    and "map v_subtotal (cv_products v)
           = List.map_filter (liveSubtotal (db_products (shop None [chairLine 3] 270)))
               (products \<lparr>products = [chairLine 3], totalPrice = 270\<rparr>)"
    by auto
  then show ?thesis using h1 l by auto
qed

text \<open>The total that the read returns after a save is the one the hook accumulated
  at the save.\<close>

lemma getUserCart_after_save:
  assumes "save d uid c = Inr (c', d')"
  shows "map_sum id cv_totalPrice (getUserCart d' uid)
           = Inr (sumNumbers (List.map_filter (resolvedSubtotal (db_products d)) (products c)))"
  using assms reduce_hook_snd [of "db_products d" "products c" 0]
  by (auto simp: save_def getUserCart_def pre_save_def sumNumbers_def Let_def split_beta
           split: if_splits)

section \<open>The hook's subtotal and the view's subtotal\<close>

text \<open>
  C5 (as the specification states it): for the same price, sale percentage, quantity and
  variant stock, the subtotal of the save hook equals the subtotal of the cart view,
  rounding being applied only at the end. It fails three times. The hook rounds the
  unit price before it multiplies: 100 lamps at 9.99 less 15 per cent are 849 in the
  hook and 849.15 in the view. The hook does not cap the quantity at the stock: 5
  chairs at 90 with 3 in stock are 450 in the hook and 270 in the view. And the hook
  does not round the product that it stores: 3 mats at 0.1, 10 in stock, are
  0.30000000000000004 in the hook and 0.3 in the view.
\<close>

theorem hook_view_subtotal_counterexample:
  "map li_subtotal (fst (reduce_hook (catalogue None) [lampLine 100] 0)) = [Some 849]
   \<and> map (Some \<circ> v_subtotal) (viewProducts (catalogue None) [lampLine 100])
       = [Some (roundToDouble (16983 / 20))]
   \<and> map li_subtotal (fst (reduce_hook (catalogue None) [lampLine 100] 0))
       \<noteq> map (Some \<circ> v_subtotal) (viewProducts (catalogue None) [lampLine 100])
   \<and> map li_subtotal (fst (reduce_hook (catalogue None) [chairLine 5] 0))
       \<noteq> map (Some \<circ> v_subtotal) (viewProducts (catalogue None) [chairLine 5])
   \<and> map li_subtotal (fst (reduce_hook (catalogue None) [matLine 3] 0))
       = [Some (1351079888211149 / 4503599627370496)]
   \<and> map (Some \<circ> v_subtotal) (viewProducts (catalogue None) [matLine 3])
       = [Some (roundToDouble (3 / 10))]
   \<and> map li_subtotal (fst (reduce_hook (catalogue None) [matLine 3] 0))
       \<noteq> map (Some \<circ> v_subtotal) (viewProducts (catalogue None) [matLine 3])"
proof -
  have cv: "map (Some \<circ> v_subtotal) (viewProducts (catalogue None) [chairLine 5]) = [Some 270]"
    by (simp add: viewProducts_def catalogue_lookups line_ids)
       (simp add: chairLine_def chair_view fmul_values toFixed2_values)
  have ch: "map li_subtotal (fst (reduce_hook (catalogue None) [chairLine 5] 0)) = [Some 450]"
    by (simp add: chair_hook del: reduce_hook.simps) (simp add: chairLine_def fmul_values)
  have lh: "map li_subtotal (fst (reduce_hook (catalogue None) [lampLine 100] 0)) = [Some 849]"
    by (simp add: lamp_hook del: reduce_hook.simps)
  have lv: "map (Some \<circ> v_subtotal) (viewProducts (catalogue None) [lampLine 100])
              = [Some (roundToDouble (16983 / 20))]"
    using lamp_view [of None] by (metis list.simps(8,9) map_map)
  have mh: "map li_subtotal (fst (reduce_hook (catalogue None) [matLine 3] 0))
              = [Some (1351079888211149 / 4503599627370496)]"
    by (rule mat_hook)
  have mv: "map (Some \<circ> v_subtotal) (viewProducts (catalogue None) [matLine 3])
              = [Some (roundToDouble (3 / 10))]"
    using mat_view [of None] by (metis list.simps(8,9) map_map)
  show ?thesis
    unfolding cv ch lh lv mh mv
    using lamp_values_differ mat_values_differ by simp
qed

text \<open>
  C5 (amended): for a line item whose product and colour variant resolve, and a sale
  percentage that is not negative, the hook and the view compute the same effective
  price, sale > 0 ? price * (1 - sale/100) : price, which the view returns unrounded as
  the price. The hook stores as subtotal the stored quantity times that price rounded
  to two decimals, and does not round the product; the view returns min(quantity,
  stock) times the unrounded price, rounded to two decimals. The two subtotals need
  not be equal.
\<close>

theorem hook_and_view_subtotals:
  assumes "cat (li_id it) = Some p"
    and "find (\<lambda>c. cv_hex c = hex (li_color it)) (p_colors p) = Some cv"
    and "0 \<le> p_sale p"
  shows "map li_subtotal (fst (reduce_hook cat [it] 0))
           = [Some (fmul (li_quantity it) (toFixed2 (effectivePrice_spec (p_price p) (p_sale p))))]
         \<and> map v_price (viewProducts cat [it]) = [effectivePrice_spec (p_price p) (p_sale p)]
         \<and> map v_quantity (viewProducts cat [it]) = [min (li_quantity it) (cv_quantity cv)]
         \<and> map v_subtotal (viewProducts cat [it])
           = [toFixed2 (fmul (min (li_quantity it) (cv_quantity cv))
                             (effectivePrice_spec (p_price p) (p_sale p)))]"
proof -
  have e: "effectivePrice p = effectivePrice_spec (p_price p) (p_sale p)"
    using assms(3) by (rule effectivePrice_spec_eq)
  have hook: "map li_subtotal (fst (reduce_hook cat [it] 0))
                = [Some (fmul (li_quantity it) (toFixed2 (effectivePrice p)))]"
    by (simp add: reduce_hook_fst hook_item_def assms(1) del: reduce_hook.simps)
  have view: "viewProducts cat [it]
      = [\<lparr>v_id = p_id p, v_name = p_name p,
          v_color = \<lparr>name = cv_name cv, hex = cv_hex cv\<rparr>,
          v_quantity = min (li_quantity it) (cv_quantity cv),
          v_image = (case cv_images cv of [] \<Rightarrow> None | u # _ \<Rightarrow> if u = [] then None else Some u),
          v_price = effectivePrice p,
          v_subtotal = toFixed2 (fmul (min (li_quantity it) (cv_quantity cv)) (effectivePrice p))\<rparr>]"
    by (simp add: viewProducts_def formatProductData_def assms(1,2) effectivePrice_def Let_def)
  show ?thesis unfolding hook view e by simp
qed

theorem hook_and_view_subtotals_witness:
  "catalogue None (li_id (chairLine 3)) = Some (chair None)
   \<and> find (\<lambda>c. cv_hex c = hex (li_color (chairLine 3))) (p_colors (chair None))
       = Some \<lparr>cv_name = ''Red'', cv_hex = ''#ff0000'', cv_quantity = 3, cv_images = []\<rparr>
   \<and> 0 \<le> p_sale (chair None)
   \<and> map li_subtotal (fst (reduce_hook (catalogue None) [chairLine 3] 0)) = [Some 270]
   \<and> map v_price (viewProducts (catalogue None) [chairLine 3]) = [90]
   \<and> map v_quantity (viewProducts (catalogue None) [chairLine 3]) = [3]
   \<and> map v_subtotal (viewProducts (catalogue None) [chairLine 3]) = [270]"
proof -
  let ?cv = "\<lparr>cv_name = ''Red'', cv_hex = ''#ff0000'', cv_quantity = 3, cv_images = []\<rparr>"
  have h1: "catalogue None (li_id (chairLine 3)) = Some (chair None)"
    by (simp add: line_ids catalogue_lookups)
  have h2: "find (\<lambda>c. cv_hex c = hex (li_color (chairLine 3))) (p_colors (chair None)) = Some ?cv"
    by (simp add: chairLine_def chair_def red_def)
  have h3: "0 \<le> p_sale (chair None)" by (simp add: chair_def)
  have e: "effectivePrice_spec (p_price (chair None)) (p_sale (chair None)) = 90"
    using effectivePrice_spec_eq [OF h3] by (simp add: chair_price)
  have q: "li_quantity (chairLine 3) = 3" "min (3::rat) (cv_quantity ?cv) = 3"
    by (simp_all add: chairLine_def)
  note t = hook_and_view_subtotals [of "catalogue None" "chairLine 3" "chair None" ?cv,
                                    OF h1 h2 h3, unfolded e q]
  from t have "map li_subtotal (fst (reduce_hook (catalogue None) [chairLine 3] 0)) = [Some 270]"
    and "map v_price (viewProducts (catalogue None) [chairLine 3]) = [90]"
    and "map v_quantity (viewProducts (catalogue None) [chairLine 3]) = [3]"
    and "map v_subtotal (viewProducts (catalogue None) [chairLine 3]) = [270]"
    by (simp_all add: fmul_values toFixed2_values del: reduce_hook.simps)
  then show ?thesis using h1 h2 h3 by blast
qed

section \<open>What the save hook does to the cart\<close>

text \<open>
  C9 (as the specification states it): the save-time recomputation discards from the
  cart every line item whose product reference can no longer be resolved. It fails on a
  cart with one such line item: after the hook the line item is still in the cart, as
  it was; only the total leaves it out.
\<close>

theorem pre_save_discard_counterexample:
  "products (pre_save (catalogue None) \<lparr>products = [ghostLine, chairLine 2], totalPrice = 0\<rparr>)
     = [ghostLine, chairLine 2]
   \<and> products (pre_save (catalogue None) \<lparr>products = [ghostLine, chairLine 2], totalPrice = 0\<rparr>)
     \<noteq> [chairLine 2]
   \<and> totalPrice (pre_save (catalogue None) \<lparr>products = [ghostLine, chairLine 2], totalPrice = 0\<rparr>)
     = 180"
  by (simp add: pre_save_def catalogue_lookups line_ids Let_def)
     (simp add: chairLine_def chair_def chair_effective toFixed2_values fmul_values fadd_values)

text \<open>
  C9 (amended): whenever a cart is saved, the save-time recomputation leaves every line
  item in the cart. A line item whose product reference can no longer be resolved is
  skipped: it stays as it was, with the subtotal it had, and adds nothing to the total.
  Every other line item gets its recomputed subtotal, and totalPrice is stored as the
  accumulated sum of the recomputed subtotals of the resolved line items.
\<close>

theorem pre_save_skips_unresolved:
  "products (pre_save cat c) = map (hook_item cat) (products c)
   \<and> filter (\<lambda>it. cat (li_id it) = None) (products (pre_save cat c))
       = filter (\<lambda>it. cat (li_id it) = None) (products c)
   \<and> length (products (pre_save cat c)) = length (products c)
   \<and> totalPrice (pre_save cat c)
       = sumNumbers (List.map_filter (resolvedSubtotal cat) (products c))"
proof -
  have p: "products (pre_save cat c) = map (hook_item cat) (products c)"
    using reduce_hook_fst [of cat "products c" 0]
    by (simp add: pre_save_def split_beta)
  have t: "totalPrice (pre_save cat c)
             = sumNumbers (List.map_filter (resolvedSubtotal cat) (products c))"
    using reduce_hook_snd [of cat "products c" 0]
    by (simp add: pre_save_def split_beta sumNumbers_def)
  have f: "filter (\<lambda>it. cat (li_id it) = None) (map (hook_item cat) its)
             = filter (\<lambda>it. cat (li_id it) = None) its" for its
    by (induction its) (auto simp: hook_item_def split: option.splits)
  show ?thesis using p t f by simp
qed

section \<open>Validation of a batch\<close>



text \<open>Whatever error \<open>addToCart\<close> answers with, the database is as it was.\<close>

lemma addToCart_error_leaves_db:
  "fst (addToCart isValid d uid items) = Inl e \<Longrightarrow> snd (addToCart isValid d uid items) = d"
  by (auto simp: addToCart_def save_def Let_def split: sum.splits option.splits if_splits)



section \<open>Merging into the cart\<close>

lemma updateFirst_keys:
  "(\<And>x. g (f x) = g x) \<Longrightarrow> map g (updateFirst P f xs) = map g xs"
  by (induction xs) auto

lemma updateFirst_set:
  "x \<in> set (updateFirst P f xs) \<Longrightarrow> x \<in> set xs \<or> (\<exists>e \<in> set xs. x = f e)"
  by (induction xs) (auto split: if_splits)

lemma find_None_keys:
  "find (\<lambda>p. li_id p = i \<and> hex (li_color p) = h) prods = None
     \<Longrightarrow> (i, h) \<notin> set (map lineKey prods)"
  by (auto simp: find_None_iff lineKey_def)

text \<open>With distinct colour names, the variant found by name is the one found by hex.\<close>

lemma find_by_name:
  "distinct (map cv_name cs) \<Longrightarrow> find (\<lambda>c. cv_hex c = h) cs = Some cv
     \<Longrightarrow> find (\<lambda>c. cv_name c = cv_name cv) cs = Some cv"
proof (induction cs)
  case Nil
  then show ?case by simp
next
  case (Cons c cs)
  show ?case
  proof (cases "cv_hex c = h")
    case True
    then show ?thesis using Cons.prems by simp
  next
    case False
    then have f: "find (\<lambda>c. cv_hex c = h) cs = Some cv" using Cons.prems by simp
    then have "cv \<in> set cs" by (auto simp: find_Some_iff)
    then have "cv_name c \<noteq> cv_name cv" using Cons.prems(1) by auto
    moreover have "find (\<lambda>c. cv_name c = cv_name cv) cs = Some cv"
      using Cons.IH Cons.prems(1) f by simp
    ultimately show ?thesis by simp
  qed
qed

text \<open>
  For a request id in the form that \<open>toString()\<close> prints, one step of the loop keeps
  the keys of the cart, or appends a key that was not there; so a cart with one line
  item per key keeps one line item per key.
\<close>

lemma addItem_cases:
  assumes "addItem cat prods ic = Inr prods'"
    and canon: "castObjectId (r_id (fst ic)) = r_id (fst ic)"
  shows "map lineKey prods' = map lineKey prods
         \<or> ((r_id (fst ic), hex (snd ic)) \<notin> set (map lineKey prods)
            \<and> map lineKey prods' = map lineKey prods @ [(r_id (fst ic), hex (snd ic))])"
proof (cases "cat (r_id (fst ic))")
  case None
  then show ?thesis using assms by (simp add: addItem_def)
next
  case (Some product)
  define avail where "avail = (case find (\<lambda>c. cv_name c = name (snd ic)) (p_colors product) of
                                 None \<Rightarrow> 0 | Some cv \<Rightarrow> cv_quantity cv)"
  define fq where "fq = min (r_quantity (fst ic)) avail"
  define P where "P = (\<lambda>p::lineItem. li_id p = r_id (fst ic) \<and> hex (li_color p) = hex (snd ic))"
  have k: "map lineKey (updateFirst P (\<lambda>e. e\<lparr>li_quantity := min (fadd (li_quantity e) fq) avail\<rparr>) prods)
             = map lineKey prods"
    by (rule updateFirst_keys) (simp add: lineKey_def)
  show ?thesis
  proof (cases "fq = 0")
    case True
    then show ?thesis using assms Some by (simp add: addItem_def Let_def avail_def fq_def)
  next
    case nz: False
    show ?thesis
    proof (cases "find P prods")
      case None
      then have "(r_id (fst ic), hex (snd ic)) \<notin> set (map lineKey prods)"
        unfolding P_def by (rule find_None_keys)
      moreover have "prods' = prods @ [\<lparr>li_id = r_id (fst ic), li_color = snd ic,
                                        li_quantity = fq, li_subtotal = None\<rparr>]"
        using assms Some nz None
        by (simp add: addItem_def Let_def avail_def [symmetric] fq_def [symmetric] P_def [symmetric])
      ultimately show ?thesis by (simp add: lineKey_def)
    next
      case (Some existing)
      then have "prods' = updateFirst P (\<lambda>e. e\<lparr>li_quantity := min (fadd (li_quantity e) fq) avail\<rparr>) prods"
        using assms \<open>cat (r_id (fst ic)) = Some product\<close> nz
        by (simp add: addItem_def Let_def avail_def [symmetric] fq_def [symmetric] P_def [symmetric])
      then show ?thesis using k by simp
    qed
  qed
qed

lemma addItems_distinct:
  "distinct (map lineKey prods) \<Longrightarrow> addItems cat prods ics = Inr prods'
     \<Longrightarrow> list_all (\<lambda>ic. castObjectId (r_id (fst ic)) = r_id (fst ic)) ics
     \<Longrightarrow> distinct (map lineKey prods')"
proof (induction ics arbitrary: prods)
  case Nil
  then show ?case by simp
next
  case (Cons ic ics)
  from Cons.prems(2) obtain mid where m: "addItem cat prods ic = Inr mid"
    and r: "addItems cat mid ics = Inr prods'"
    by (auto split: sum.splits)
  have c: "castObjectId (r_id (fst ic)) = r_id (fst ic)" using Cons.prems(3) by simp
  from addItem_cases [OF m c] Cons.prems(1) have "distinct (map lineKey mid)" by auto
  then show ?case using r Cons.prems(3) Cons.IH by simp
qed

lemma reduce_hook_keys: "map lineKey (fst (reduce_hook cat its acc)) = map lineKey its"
  by (induction its arbitrary: acc)
     (simp_all add: lineKey_def Let_def split_beta split: option.splits)

lemma pre_save_keys: "map lineKey (products (pre_save cat c)) = map lineKey (products c)"
  by (simp add: pre_save_def split_beta reduce_hook_keys)

text \<open>The database after \<open>addToCart\<close>: as it was, or with the user's cart replaced by
  the hook's result on the merged line items.\<close>

lemma addToCart_cases:
  "snd (addToCart isValid d uid items) = d
   \<or> (\<exists>vitems prods. addItems (db_products d)
          (products (case db_carts d uid of
                       None \<Rightarrow> \<lparr>products = [], totalPrice = 0\<rparr> | Some c \<Rightarrow> c))
          vitems = Inr prods
        \<and> validateItems isValid (db_products d) items = Inr vitems
        \<and> snd (addToCart isValid d uid items)
            = d\<lparr>db_carts := (db_carts d)(uid \<mapsto> pre_save (db_products d)
                 ((case db_carts d uid of
                     None \<Rightarrow> \<lparr>products = [], totalPrice = 0\<rparr> | Some c \<Rightarrow> c)
                  \<lparr>products := prods\<rparr>))\<rparr>)"
  by (simp add: addToCart_def save_def Let_def split: sum.splits)

lemma validateItems_fst:
  "validateItems isValid cat items = Inr vitems \<Longrightarrow> map fst vitems = items"
  by (induction items arbitrary: vitems) (auto split: sum.splits)

lemma addToCart_distinct:
  assumes inv: "cartKeysDistinct d uid"
    and canon: "list_all (\<lambda>item. castObjectId (r_id item) = r_id item) items"
  shows "cartKeysDistinct (snd (addToCart isValid d uid items)) uid"
proof -
  let ?cart = "case db_carts d uid of None \<Rightarrow> \<lparr>products = [], totalPrice = 0\<rparr> | Some c \<Rightarrow> c"
  have d0: "distinct (map lineKey (products ?cart))"
    using inv by (cases "db_carts d uid") (auto simp: cartKeysDistinct_def)
  from addToCart_cases [of isValid d uid items] show ?thesis
  proof
    assume "snd (addToCart isValid d uid items) = d"
    then show ?thesis using inv by simp
  next
    assume "\<exists>vitems prods. addItems (db_products d) (products ?cart) vitems = Inr prods
        \<and> validateItems isValid (db_products d) items = Inr vitems
        \<and> snd (addToCart isValid d uid items)
            = d\<lparr>db_carts := (db_carts d)(uid \<mapsto>
                   pre_save (db_products d) (?cart\<lparr>products := prods\<rparr>))\<rparr>"
    then obtain vitems prods
      where a: "addItems (db_products d) (products ?cart) vitems = Inr prods"
        and v: "validateItems isValid (db_products d) items = Inr vitems"
        and s: "snd (addToCart isValid d uid items)
                 = d\<lparr>db_carts := (db_carts d)(uid \<mapsto>
                        pre_save (db_products d) (?cart\<lparr>products := prods\<rparr>))\<rparr>"
      by blast
    have "list_all (\<lambda>item. castObjectId (r_id item) = r_id item) (map fst vitems)"
      using canon validateItems_fst [OF v] by simp
    then have c: "list_all (\<lambda>ic. castObjectId (r_id (fst ic)) = r_id (fst ic)) vitems"
      by (simp add: list_all_iff)
    from addItems_distinct [OF d0 a c] have "distinct (map lineKey prods)" .
    then show ?thesis unfolding s by (simp add: cartKeysDistinct_def pre_save_keys)
  qed
qed

text \<open>For a product whose colour names are distinct, a line item that the step wrote
  is within the stock of the variant asked for.\<close>

lemma addItem_quantity_within_stock:
  assumes p: "cat (castObjectId (r_id item)) = Some product"
    and dn: "distinct (map cv_name (p_colors product))"
    and cv: "find (\<lambda>c. cv_hex c = h) (p_colors product) = Some cv"
    and a: "addItem cat prods (item, \<lparr>name = cv_name cv, hex = cv_hex cv\<rparr>) = Inr prods'"
    and l: "l \<in> set prods'"
  shows "l \<in> set prods \<or> li_quantity l \<le> cv_quantity cv"
proof -
  have bn: "find (\<lambda>c. cv_name c = cv_name cv) (p_colors product) = Some cv"
    using dn cv by (rule find_by_name)
  show ?thesis
    using a l p bn
    by (auto simp: addItem_def Let_def split: if_splits option.splits dest!: updateFirst_set)
qed

text \<open>For such a product, an item whose variant has no stock is dropped: the step
  succeeds and leaves the line items as they are.\<close>

lemma addItem_out_of_stock:
  assumes p: "cat (castObjectId (r_id item)) = Some product"
    and dn: "distinct (map cv_name (p_colors product))"
    and cv: "find (\<lambda>c. cv_hex c = h) (p_colors product) = Some cv"
    and z: "cv_quantity cv = 0" and q: "0 \<le> r_quantity item"
  shows "addItem cat prods (item, \<lparr>name = cv_name cv, hex = cv_hex cv\<rparr>) = Inr prods"
proof -
  have bn: "find (\<lambda>c. cv_name c = cv_name cv) (p_colors product) = Some cv"
    using dn cv by (rule find_by_name)
  show ?thesis using p bn z q by (simp add: addItem_def Let_def)
qed

text \<open>
  C7: after every addItems call, the cart contains at most one line item per (product,
  colour) pair: an added item that matches an existing line item is merged into it and
  never appended as a second entry. The loop looks for the existing line item with
  \<open>p.id.toString() === id\<close>, the stored id in lower case against the string of the
  request as it came. For a request that names the chair with an upper-case digit, on a
  cart that holds a line item of the chair in red, the id is valid and the product is
  found, but no line item matches: a second line item for the same chair and the same
  colour is appended.
\<close>

theorem addToCart_appends_second_line:
  "map_option (map lineKey \<circ> products)
     (db_carts (snd (addToCart hex24 (shop None [chairLine 1] 90) aliceId [upperChairReq 1])) aliceId)
     = Some [(chairId, ''#ff0000''), (chairId, ''#ff0000'')]
   \<and> map_option (map li_quantity \<circ> products)
       (db_carts (snd (addToCart hex24 (shop None [chairLine 1] 90) aliceId [upperChairReq 1])) aliceId)
     = Some [1, 1]
   \<and> cartKeysDistinct (shop None [chairLine 1] 90) aliceId
   \<and> \<not> cartKeysDistinct
         (snd (addToCart hex24 (shop None [chairLine 1] 90) aliceId [upperChairReq 1])) aliceId"
proof -
  have c: "db_carts (snd (addToCart hex24 (shop None [chairLine 1] 90) aliceId [upperChairReq 1]))
             aliceId
           = Some \<lparr>products = [chairLine 1, chairLine 1], totalPrice = 180\<rparr>"
    by (simp add: addToCart_def shop_def upper_chair_validate upper_chair_add save_def
                  validateCart_def pre_save_def two_chairs_hook Let_def
             del: validateItems.simps addItems.simps reduce_hook.simps)
       (simp add: chairLine_def red_def upperChairReq_def)
  have k: "lineKey (chairLine 1) = (chairId, ''#ff0000'')"
    by (simp add: lineKey_def chairLine_def red_def)
  have q: "li_quantity (chairLine 1) = 1" by (simp add: chairLine_def)
  have d0: "cartKeysDistinct (shop None [chairLine 1] 90) aliceId"
    by (simp add: cartKeysDistinct_def shop_fields)
  show ?thesis using d0 by (simp add: c k q cartKeysDistinct_def)
qed

text \<open>
  C8: for every addItems call, each resulting line-item quantity never exceeds the
  chosen colour variant's available stock. The code reads the stock of the first
  variant with the chosen variant's colour name, not of the variant chosen by hex:
  on a product with a variant Red #ff0000 (10 in stock) and a variant Red #aa0000 (2 in
  stock), a request for 5 of #aa0000 on an empty cart stores a line item of 5 for
  #aa0000, and answers with a view of that line clamped to 2 next to the total of 5.
\<close>

theorem addToCart_exceeds_variant_stock:
  "map_option products (db_carts (snd (addToCart hex24 emptyShop aliceId [sofaReq])) aliceId)
     = Some [sofaLine 5]
   \<and> map_option cv_quantity (find (\<lambda>c. cv_hex c = ''#aa0000'') (p_colors sofa)) = Some 2
   \<and> fst (addToCart hex24 emptyShop aliceId [sofaReq])
     = Inr \<lparr>cv_products = [\<lparr>v_id = sofaId, v_name = ''Sofa'', v_color = darkRed, v_quantity = 2,
                               v_image = None, v_price = 200, v_subtotal = 400\<rparr>],
            cv_totalPrice = 1000\<rparr>"
proof -
  have a: "map_option products (db_carts (snd (addToCart hex24 emptyShop aliceId [sofaReq])) aliceId)
             = Some [sofaLine 5]"
    by (simp add: addToCart_def emptyShop_def sofa_validate sofa_add save_def validateCart_def
                  pre_save_def sofa_hook Let_def
             del: validateItems.simps addItems.simps reduce_hook.simps)
       (simp add: sofaLine_def darkRed_def sofaReq_def)
  have b: "map_option cv_quantity (find (\<lambda>c. cv_hex c = ''#aa0000'') (p_colors sofa)) = Some 2"
    by (simp add: sofa_def)
  have c: "fst (addToCart hex24 emptyShop aliceId [sofaReq])
     = Inr \<lparr>cv_products = [\<lparr>v_id = sofaId, v_name = ''Sofa'', v_color = darkRed, v_quantity = 2,
                               v_image = None, v_price = 200, v_subtotal = 400\<rparr>],
            cv_totalPrice = 1000\<rparr>"
    by (simp add: addToCart_def emptyShop_def sofa_validate sofa_add save_def validateCart_def
                  pre_save_def sofa_hook sofa_view Let_def
             del: validateItems.simps addItems.simps reduce_hook.simps)
       (simp add: sofaLine_def darkRed_def sofaReq_def)
  show ?thesis using a b c by blast
qed

section \<open>Checkout\<close>

text \<open>Whatever error \<open>placeOrder\<close> answers with, the database is as it was: the
  checks come before the first write.\<close>

lemma placeOrder_error_leaves_db:
  "fst (placeOrder isValid del d uid sa pm tx) = Inl e
     \<Longrightarrow> snd (placeOrder isValid del d uid sa pm tx) = d"
  by (auto simp: placeOrder_def Let_def split: option.splits if_splits)

text \<open>The stock loop reads nothing but the top-level quantity: it passes every cart
  whose products have none.\<close>

lemma stockCheck_without_top_level_quantity:
  "list_all (\<lambda>ip. case snd ip of None \<Rightarrow> False | Some p \<Rightarrow> p_quantity p = None) items
     \<Longrightarrow> stockCheck items = None"
  by (induction items rule: stockCheck.induct) auto

text \<open>Each order item carries the line's subtotal as its price.\<close>

lemma buildOrderItems_price:
  "buildOrderItems items = Some ois
     \<Longrightarrow> map oi_price ois = map (li_subtotal \<circ> fst) items
         \<and> map oi_quantity ois = map (li_quantity \<circ> fst) items"
  by (induction items arbitrary: ois rule: buildOrderItems.induct)
     (auto split: option.splits)

text \<open>Checkout never writes a product's \<open>colors\<close>: the stock that the cart reads is
  the same after any call.\<close>

lemma incQuantity_colors:
  "map_option p_colors (incQuantity cat ip i) = map_option p_colors (cat i)"
  by (auto simp: incQuantity_def split: option.splits)

lemma foldl_incQuantity_colors:
  "map_option p_colors (foldl incQuantity cat items i) = map_option p_colors (cat i)"
  by (induction items arbitrary: cat) (simp_all add: incQuantity_colors)

lemma placeOrder_leaves_colors:
  "map_option p_colors (db_products (snd (placeOrder isValid del d uid sa pm tx)) i)
     = map_option p_colors (db_products d i)"
  by (simp add: placeOrder_def Let_def foldl_incQuantity_colors split: option.splits)

text \<open>
  C2: for every placeOrder call, the stock check fails with an InvalidState error naming
  the product and both quantities if and only if some line item's requested quantity
  exceeds the current stock of that line item's colour variant. The code compares with
  the product's top-level quantity instead. A line of 5 of a variant with 3 in stock, on
  a product without a top-level quantity, passes the check and the order is placed; a
  line of 2 of the same variant, on a product whose top-level quantity is 0, fails it.
\<close>

theorem placeOrder_stock_check_reads_product_quantity:
  "fst (placeOrder hex24 del (shop None [chairLine 5] 450) aliceId sa pm tx)
     = Inr \<lparr>o_userId = aliceId,
            orderItems = [\<lparr>oi_id = chairId, oi_name = ''Chair'', oi_quantity = 5,
                           oi_price = Some 450, oi_color = red\<rparr>],
            shippingAddress = sa, paymentMethod = pm, transactionId = tx, totalAmount = 450\<rparr>
   \<and> fst (placeOrder hex24 del (shop (Some 0) [chairLine 2] 180) aliceId sa pm tx)
     = Inl (NotEnoughStock ''Chair'' (Some 0) 2)
   \<and> statusCode (NotEnoughStock ''Chair'' (Some 0) 2) = Some 400
   \<and> map_option cv_quantity (find (\<lambda>c. cv_hex c = hex red) (p_colors (chair tq))) = Some 3"
proof -
  have a: "fst (placeOrder hex24 del (shop None [chairLine 5] 450) aliceId sa pm tx)
     = Inr \<lparr>o_userId = aliceId,
            orderItems = [\<lparr>oi_id = chairId, oi_name = ''Chair'', oi_quantity = 5,
                           oi_price = Some 450, oi_color = red\<rparr>],
            shippingAddress = sa, paymentMethod = pm, transactionId = tx, totalAmount = 450\<rparr>"
    by (simp add: placeOrder_def shop_fields hex24_ids populate_def line_ids catalogue_lookups
                  Let_def)
       (simp add: chair_def chairLine_def toFixed2_values fmul_values Let_def shop_fields)
  have b: "fst (placeOrder hex24 del (shop (Some 0) [chairLine 2] 180) aliceId sa pm tx)
     = Inl (NotEnoughStock ''Chair'' (Some 0) 2)"
    by (simp add: placeOrder_def shop_fields hex24_ids populate_def line_ids catalogue_lookups
                  Let_def)
       (simp add: chair_def chairLine_def fmul_values Let_def shop_fields)
  have c: "map_option cv_quantity (find (\<lambda>c. cv_hex c = hex red) (p_colors (chair tq))) = Some 3"
    by (simp add: chair_def red_def)
  have s: "statusCode (NotEnoughStock ''Chair'' (Some 0) 2) = Some 400" by simp
  show ?thesis using a b c s by blast
qed

text \<open>
  C3: for every successful placeOrder call, each purchased product's stock is
  decremented by the purchased quantity, the user's cart is deleted, and the order's
  totalAmount equals the cart's total. On the specification's scenario (one line item
  of 3 at unit price 90) the order is placed with totalAmount 270, but the stock of the
  purchased variant is 3 after the call as before it: the decrement goes to the
  product's top-level quantity, which becomes -3. The cart collection after the call is
  what the driver makes of the bare user id.
\<close>

theorem placeOrder_leaves_variant_stock:
  "map_sum id totalAmount (fst (placeOrder hex24 del (shop None [chairLine 3] 270) aliceId sa pm tx))
     = Inr 270
   \<and> db_products (snd (placeOrder hex24 del (shop None [chairLine 3] 270) aliceId sa pm tx)) chairId
     = Some (chair (Some (- 3)))
   \<and> map_option (map cv_quantity \<circ> p_colors)
       (db_products (snd (placeOrder hex24 del (shop None [chairLine 3] 270) aliceId sa pm tx)) chairId)
     = Some [3]
   \<and> db_carts (snd (placeOrder hex24 del (shop None [chairLine 3] 270) aliceId sa pm tx))
     = del aliceId (db_carts (shop None [chairLine 3] 270))"
proof -
  have a: "map_sum id totalAmount
             (fst (placeOrder hex24 del (shop None [chairLine 3] 270) aliceId sa pm tx)) = Inr 270"
    by (simp add: placeOrder_def shop_fields hex24_ids populate_def line_ids catalogue_lookups
                  Let_def)
       (simp add: chair_def chairLine_def toFixed2_values fmul_values Let_def shop_fields)
  have b: "db_products (snd (placeOrder hex24 del (shop None [chairLine 3] 270) aliceId sa pm tx))
             chairId = Some (chair (Some (- 3)))"
    by (simp add: placeOrder_def shop_fields hex24_ids populate_def line_ids catalogue_lookups
                  Let_def)
       (simp add: chair_def chairLine_def incQuantity_def catalogue_lookups fadd_values fmul_values
                  Let_def shop_fields)
  have c: "db_carts (snd (placeOrder hex24 del (shop None [chairLine 3] 270) aliceId sa pm tx))
             = del aliceId (db_carts (shop None [chairLine 3] 270))"
    by (simp add: placeOrder_def shop_fields hex24_ids populate_def line_ids catalogue_lookups
                  Let_def)
       (simp add: chair_def chairLine_def fmul_values Let_def shop_fields)
  have d: "map_option (map cv_quantity \<circ> p_colors) (Some (chair (Some (- 3)))) = Some [3]"
    by (simp add: chair_def)
  show ?thesis unfolding b using a c d by blast
qed

text \<open>
  C4: for every line item of a successful placeOrder, the order-item record stores as
  its price the per-unit price of the line, the line's subtotal divided by its
  quantity. The code stores the line's subtotal, undivided: for the line of 3 at unit
  price 90 the order item has quantity 3 and price 270, not 90.
\<close>

theorem placeOrder_snapshots_line_subtotal:
  "map_sum id orderItems (fst (placeOrder hex24 del (shop None [chairLine 3] 270) aliceId sa pm tx))
     = Inr [\<lparr>oi_id = chairId, oi_name = ''Chair'', oi_quantity = 3, oi_price = Some 270,
             oi_color = red\<rparr>]
   \<and> li_subtotal (chairLine 3) = Some 270
   \<and> map_option (\<lambda>s. s / li_quantity (chairLine 3)) (li_subtotal (chairLine 3)) = Some 90"
proof -
  have a: "map_sum id orderItems
             (fst (placeOrder hex24 del (shop None [chairLine 3] 270) aliceId sa pm tx))
     = Inr [\<lparr>oi_id = chairId, oi_name = ''Chair'', oi_quantity = 3, oi_price = Some 270,
             oi_color = red\<rparr>]"
    by (simp add: placeOrder_def shop_fields hex24_ids populate_def line_ids catalogue_lookups
                  Let_def)
       (simp add: chair_def chairLine_def fmul_values Let_def shop_fields)
  have b: "li_subtotal (chairLine 3) = Some 270
           \<and> map_option (\<lambda>s. s / li_quantity (chairLine 3)) (li_subtotal (chairLine 3)) = Some 90"
    by (simp add: chairLine_def fmul_values)
  show ?thesis using a b by blast
qed

text \<open>
  C6: for every placeOrder call in which some line item's quantity exceeds current
  stock, the call fails with InvalidState and leaves product stock, the cart and the
  set of orders unmodified. For a line of 5 of a variant with 3 in stock, on a product
  without a top-level quantity, the call succeeds instead: an order for 5 is added to
  the orders, the product is written and the cart handed to the deletion.
\<close>

theorem placeOrder_oversells_variant:
  "map_option cv_quantity (find (\<lambda>c. cv_hex c = hex red) (p_colors (chair None))) = Some 3
   \<and> li_quantity (chairLine 5) = 5
   \<and> db_orders (snd (placeOrder hex24 del (shop None [chairLine 5] 450) aliceId sa pm tx))
     = [\<lparr>o_userId = aliceId,
         orderItems = [\<lparr>oi_id = chairId, oi_name = ''Chair'', oi_quantity = 5,
                        oi_price = Some 450, oi_color = red\<rparr>],
         shippingAddress = sa, paymentMethod = pm, transactionId = tx, totalAmount = 450\<rparr>]
   \<and> db_products (snd (placeOrder hex24 del (shop None [chairLine 5] 450) aliceId sa pm tx)) chairId
     = Some (chair (Some (- 5)))
   \<and> db_carts (snd (placeOrder hex24 del (shop None [chairLine 5] 450) aliceId sa pm tx))
     = del aliceId (db_carts (shop None [chairLine 5] 450))"
proof -
  have a: "map_option cv_quantity (find (\<lambda>c. cv_hex c = hex red) (p_colors (chair None))) = Some 3
           \<and> li_quantity (chairLine 5) = 5"
    by (simp add: chair_def red_def chairLine_def)
  have b: "db_orders (snd (placeOrder hex24 del (shop None [chairLine 5] 450) aliceId sa pm tx))
     = [\<lparr>o_userId = aliceId,
         orderItems = [\<lparr>oi_id = chairId, oi_name = ''Chair'', oi_quantity = 5,
                        oi_price = Some 450, oi_color = red\<rparr>],
         shippingAddress = sa, paymentMethod = pm, transactionId = tx, totalAmount = 450\<rparr>]"
    by (simp add: placeOrder_def shop_fields hex24_ids populate_def line_ids catalogue_lookups
                  Let_def)
       (simp add: chair_def chairLine_def toFixed2_values fmul_values Let_def shop_fields)
  have c: "db_products (snd (placeOrder hex24 del (shop None [chairLine 5] 450) aliceId sa pm tx))
             chairId = Some (chair (Some (- 5)))"
    by (simp add: placeOrder_def shop_fields hex24_ids populate_def line_ids catalogue_lookups
                  Let_def)
       (simp add: chair_def chairLine_def incQuantity_def catalogue_lookups fadd_values fmul_values
                  Let_def shop_fields)
  have d: "db_carts (snd (placeOrder hex24 del (shop None [chairLine 5] 450) aliceId sa pm tx))
             = del aliceId (db_carts (shop None [chairLine 5] 450))"
    by (simp add: placeOrder_def shop_fields hex24_ids populate_def line_ids catalogue_lookups
                  Let_def)
       (simp add: chair_def chairLine_def fmul_values Let_def shop_fields)
  show ?thesis using a b c d by blast
qed

end
